theory Spec2Isabelle
  imports Complex_Main
begin

section \<open>Text: characters, lines, fields\<close>

text \<open>
  The program is \<^verbatim>\<open>compute_std.py\<close>: it reads a text file line by line, takes the
  fourth comma-separated field of every data line as a float, and prints the mean, the
  sample standard deviation, the minimum and the maximum of the values read.

  A Python string is modelled as a \<^typ>\<open>string\<close>; a \<^typ>\<open>char\<close> stands for the code
  point of the same number, so the text covered is the one whose code points are below 256.
\<close>

definition LF :: char where
  "LF = CHR 0x0A"

definition CR :: char where
  "CR = CHR 0x0D"

text \<open>
  \<^verbatim>\<open>open(filepath, "r")\<close> reads with universal newlines: \<^verbatim>\<open>\r\n\<close> and a lone
  \<^verbatim>\<open>\r\<close> arrive as \<^verbatim>\<open>\n\<close>.
\<close>

fun translate_newlines :: "string \<Rightarrow> string" where
  "translate_newlines [] = []"
| "translate_newlines [c] = (if c = CR then [LF] else [c])"
| "translate_newlines (c # d # ds) =
     (if c = CR \<and> d = LF then LF # translate_newlines ds
      else if c = CR then LF # translate_newlines (d # ds)
      else c # translate_newlines (d # ds))"

text \<open>
  \<^verbatim>\<open>for line in f\<close>: every line ends with its \<^verbatim>\<open>\n\<close>, except a last line that the
  file leaves unterminated.
\<close>

fun readlines :: "string \<Rightarrow> string list" where
  "readlines [] = []"
| "readlines (c # cs) =
     (if c = LF then [LF] # readlines cs
      else (case readlines cs of [] \<Rightarrow> [[c]] | l # ls \<Rightarrow> (c # l) # ls))"

definition file_lines :: "string \<Rightarrow> string list" where
  "file_lines content = readlines (translate_newlines content)"

text \<open>
  \<^verbatim>\<open>str.strip()\<close> removes the characters for which \<^verbatim>\<open>str.isspace\<close> holds: below 256
  these are tab to carriage return, the four separators 0x1C to 0x1F, the space, NEL (0x85)
  and the no-break space (0xA0).
\<close>

definition py_isspace :: "char \<Rightarrow> bool" where
  "py_isspace c = (c \<in> set [CHR 0x09, CHR 0x0A, CHR 0x0B, CHR 0x0C, CHR 0x0D,
     CHR 0x1C, CHR 0x1D, CHR 0x1E, CHR 0x1F, CHR 0x20, CHR 0x85, CHR 0xA0])"

definition py_strip :: "string \<Rightarrow> string" where
  "py_strip s = rev (dropWhile py_isspace (rev (dropWhile py_isspace s)))"

definition py_startswith :: "string \<Rightarrow> string \<Rightarrow> bool" where
  "py_startswith s p = (take (length p) s = p)"

text \<open>\<^verbatim>\<open>line.split(",")\<close>: the fields between the separators; there is always one.\<close>

fun py_split :: "char \<Rightarrow> string \<Rightarrow> string list" where
  "py_split sep [] = [[]]"
| "py_split sep (c # cs) =
     (if c = sep then [] # py_split sep cs
      else (case py_split sep cs of [] \<Rightarrow> [[c]] | p # ps \<Rightarrow> (c # p) # ps))"

section \<open>Binary64 values\<close>

text \<open>
  A Python float is an IEEE 754 binary64 value: a finite number, an infinity or a NaN.
  A finite value is kept as the real number it denotes; the sign of a zero and the payload
  of a NaN are not represented.
\<close>

datatype pyfloat = Fin real | PInf | NInf | NaN

definition round_half_even :: "real \<Rightarrow> int" where
  "round_half_even x =
     (let f = \<lfloor>x\<rfloor>; d = x - of_int f
      in if d < 1 / 2 then f else if 1 / 2 < d then f + 1 else if even f then f else f + 1)"

text \<open>
  The exponent of the unit in the last place around \<open>x\<close>: 52 binary places below the
  leading bit, and never below the subnormal spacing \<open>2 powr (-1074)\<close>.
\<close>

definition ulp_exp :: "real \<Rightarrow> int" where
  "ulp_exp x = max \<lfloor>log 2 \<bar>x\<bar>\<rfloor> (- 1022) - 52"

text \<open>
  Round to nearest, ties to even: the result of every binary64 operation on the exact
  real result. What reaches \<open>2 ^ 1024\<close> after rounding overflows to an infinity.
\<close>

definition round64 :: "real \<Rightarrow> pyfloat" where
  "round64 x =
     (if x = 0 then Fin 0
      else (let u = 2 powr of_int (ulp_exp x);
                r = of_int (round_half_even (x / u)) * u
            in if 2 ^ 1024 \<le> \<bar>r\<bar> then (if 0 < x then PInf else NInf) else Fin r))"

definition fneg :: "pyfloat \<Rightarrow> pyfloat" where
  "fneg a = (case a of Fin x \<Rightarrow> Fin (- x) | PInf \<Rightarrow> NInf | NInf \<Rightarrow> PInf | NaN \<Rightarrow> NaN)"

fun fadd :: "pyfloat \<Rightarrow> pyfloat \<Rightarrow> pyfloat" where
  "fadd NaN b = NaN"
| "fadd a NaN = NaN"
| "fadd PInf NInf = NaN"
| "fadd NInf PInf = NaN"
| "fadd PInf b = PInf"
| "fadd NInf b = NInf"
| "fadd a PInf = PInf"
| "fadd a NInf = NInf"
| "fadd (Fin x) (Fin y) = round64 (x + y)"

definition fsub :: "pyfloat \<Rightarrow> pyfloat \<Rightarrow> pyfloat" where
  "fsub a b = fadd a (fneg b)"

fun fmul :: "pyfloat \<Rightarrow> pyfloat \<Rightarrow> pyfloat" where
  "fmul NaN b = NaN"
| "fmul a NaN = NaN"
| "fmul (Fin x) (Fin y) = round64 (x * y)"
| "fmul (Fin x) PInf = (if x = 0 then NaN else if 0 < x then PInf else NInf)"
| "fmul (Fin x) NInf = (if x = 0 then NaN else if 0 < x then NInf else PInf)"
| "fmul PInf (Fin y) = (if y = 0 then NaN else if 0 < y then PInf else NInf)"
| "fmul NInf (Fin y) = (if y = 0 then NaN else if 0 < y then NInf else PInf)"
| "fmul PInf PInf = PInf"
| "fmul PInf NInf = NInf"
| "fmul NInf PInf = NInf"
| "fmul NInf NInf = PInf"

text \<open>
  numpy divides floats by IEEE rules and raises nothing: a zero divisor gives an infinity,
  or a NaN when the dividend is zero or a NaN (with a warning on the error stream).
\<close>

fun fdiv :: "pyfloat \<Rightarrow> pyfloat \<Rightarrow> pyfloat" where
  "fdiv NaN b = NaN"
| "fdiv a NaN = NaN"
| "fdiv (Fin x) (Fin y) =
     (if y = 0 then (if x = 0 then NaN else if 0 < x then PInf else NInf)
      else round64 (x / y))"
| "fdiv (Fin x) PInf = Fin 0"
| "fdiv (Fin x) NInf = Fin 0"
| "fdiv PInf (Fin y) = (if 0 \<le> y then PInf else NInf)"
| "fdiv NInf (Fin y) = (if 0 \<le> y then NInf else PInf)"
| "fdiv PInf b = NaN"
| "fdiv NInf b = NaN"

fun fsqrt :: "pyfloat \<Rightarrow> pyfloat" where
  "fsqrt NaN = NaN"
| "fsqrt PInf = PInf"
| "fsqrt NInf = NaN"
| "fsqrt (Fin x) = (if x < 0 then NaN else round64 (sqrt x))"

text \<open>The comparison \<^verbatim>\<open><=\<close> of two floats: false as soon as one of them is a NaN.\<close>

fun fle :: "pyfloat \<Rightarrow> pyfloat \<Rightarrow> bool" where
  "fle NaN b = False"
| "fle a NaN = False"
| "fle NInf b = True"
| "fle a PInf = True"
| "fle PInf b = False"
| "fle a NInf = False"
| "fle (Fin x) (Fin y) = (x \<le> y)"

section \<open>The built-in \<^verbatim>\<open>float\<close> on a string\<close>

text \<open>
  \<^verbatim>\<open>float(s)\<close> strips white space, accepts single underscores between digits, and reads
  an optionally signed decimal number with an optional exponent, or \<^verbatim>\<open>inf\<close>,
  \<^verbatim>\<open>infinity\<close> or \<^verbatim>\<open>nan\<close> in any letter case; anything else raises ValueError, which is
  \<open>None\<close> here. The white space it strips is the ASCII one, and NEL and the no-break
  space; the separators 0x1C to 0x1F, which \<^verbatim>\<open>str.strip\<close> removes, are an error to it.
\<close>

definition float_isspace :: "char \<Rightarrow> bool" where
  "float_isspace c = (c \<in> set [CHR 0x09, CHR 0x0A, CHR 0x0B, CHR 0x0C, CHR 0x0D,
     CHR 0x20, CHR 0x85, CHR 0xA0])"

definition float_strip :: "string \<Rightarrow> string" where
  "float_strip s = rev (dropWhile float_isspace (rev (dropWhile float_isspace s)))"

definition is_digit :: "char \<Rightarrow> bool" where
  "is_digit c = (48 \<le> (of_char c :: nat) \<and> (of_char c :: nat) \<le> 57)"

definition digits_val :: "string \<Rightarrow> nat" where
  "digits_val ds = foldl (\<lambda>n c. 10 * n + (of_char c - 48)) 0 ds"

text \<open>
  An underscore is allowed only after a digit and before a digit; \<open>prev\<close> is the
  character read last.
\<close>

fun remove_underscores :: "char \<Rightarrow> string \<Rightarrow> string option" where
  "remove_underscores prev [] = (if prev = CHR ''_'' then None else Some [])"
| "remove_underscores prev (c # cs) =
     (if c = CHR ''_'' then (if is_digit prev then remove_underscores c cs else None)
      else if prev = CHR ''_'' \<and> \<not> is_digit c then None
      else map_option ((#) c) (remove_underscores c cs))"

definition split_sign :: "string \<Rightarrow> bool \<times> string" where
  "split_sign s =
     (case s of
        [] \<Rightarrow> (False, [])
      | c # cs \<Rightarrow>
          if c = CHR ''-'' then (True, cs) else if c = CHR ''+'' then (False, cs) else (False, s))"

definition ci_match :: "string \<Rightarrow> string \<Rightarrow> string \<Rightarrow> bool" where
  "ci_match s lower upper =
     (length s = length lower \<and> list_all (\<lambda>(c, l, u). c = l \<or> c = u) (zip s (zip lower upper)))"

definition parse_inf_or_nan :: "string \<Rightarrow> pyfloat option" where
  "parse_inf_or_nan s =
     (let (negate, t) = split_sign s
      in if ci_match t ''inf'' ''INF'' \<or> ci_match t ''infinity'' ''INFINITY''
         then Some (if negate then NInf else PInf)
         else if ci_match t ''nan'' ''NAN'' then Some NaN
         else None)"

text \<open>What may follow the mantissa: nothing, or \<^verbatim>\<open>e\<close>, an optional sign and digits.\<close>

definition parse_exponent :: "string \<Rightarrow> int option" where
  "parse_exponent s =
     (case s of
        [] \<Rightarrow> Some 0
      | c # cs \<Rightarrow>
          if c = CHR ''e'' \<or> c = CHR ''E''
          then (let (negate, ds) = split_sign cs
                in if ds \<noteq> [] \<and> list_all is_digit ds
                   then Some (if negate then - int (digits_val ds) else int (digits_val ds))
                   else None)
          else None)"

definition scale10 :: "real \<Rightarrow> int \<Rightarrow> real" where
  "scale10 m e = (if 0 \<le> e then m * 10 ^ nat e else m / 10 ^ nat (- e))"

text \<open>The number a decimal literal denotes, before it is rounded to binary64.\<close>

definition decimal_value :: "string \<Rightarrow> real option" where
  "decimal_value s =
     (let (negate, t) = split_sign s;
          ip = takeWhile is_digit t;
          t1 = dropWhile is_digit t;
          (fp, t2) = (case t1 of
                        [] \<Rightarrow> ([], [])
                      | c # cs \<Rightarrow>
                          if c = CHR ''.'' then (takeWhile is_digit cs, dropWhile is_digit cs)
                          else ([], t1))
      in if ip = [] \<and> fp = [] then None
         else (case parse_exponent t2 of
                 None \<Rightarrow> None
               | Some e \<Rightarrow>
                   Some (scale10 (if negate then - real (digits_val (ip @ fp))
                                  else real (digits_val (ip @ fp)))
                           (e - int (length fp)))))"

definition py_float :: "string \<Rightarrow> pyfloat option" where
  "py_float s =
     (case remove_underscores (CHR 0x00) (float_strip s) of
        None \<Rightarrow> None
      | Some t \<Rightarrow>
          (case decimal_value t of
             Some x \<Rightarrow> Some (round64 x)
           | None \<Rightarrow> parse_inf_or_nan t))"

section \<open>Reading the file\<close>

text \<open>
  The body of the loop of \<^verbatim>\<open>read_batch_readiness_times\<close>, for one line of the file:
  the list \<open>values\<close> as the iteration leaves it. Every \<^verbatim>\<open>continue\<close> and the
  \<^verbatim>\<open>except ValueError: pass\<close> leave it as it was.
\<close>

definition loop_body :: "string \<Rightarrow> pyfloat list \<Rightarrow> pyfloat list" where
  "loop_body raw values =
     (let line = py_strip raw
      in if line = [] \<or> py_startswith line ''Iteration'' then values
         else if py_startswith line ''Average Batch'' \<or> py_startswith line ''Final Average''
         then values
         else (let parts = py_split (CHR '','') line
               in if length parts < 4 then values
                  else (case py_float (parts ! 3) of
                          Some batch_time \<Rightarrow> values @ [batch_time]
                        | None \<Rightarrow> values)))"

primrec lines_loop :: "string list \<Rightarrow> pyfloat list \<Rightarrow> pyfloat list" where
  "lines_loop [] values = values"
| "lines_loop (l # ls) values = lines_loop ls (loop_body l values)"

text \<open>What the function returns for a file of the given text: the array of the values.\<close>

definition parse :: "string \<Rightarrow> pyfloat list" where
  "parse content = lines_loop (file_lines content) []"

text \<open>
  The world the program runs in: the decoded text of every file that can be opened and
  read (a path that is absent cannot), the paths it has opened so far, and what it has
  printed on the standard output.
  The line \<^verbatim>\<open>Values: [...]\<close> is kept as the list it prints.
\<close>

datatype out_line = Line string | ValuesLine "pyfloat list"

record world =
  files :: "string \<rightharpoonup> string"
  opened :: "string list"
  stdout :: "out_line list"

datatype error = OSError string | ValueError

definition read_batch_readiness_times ::
    "string \<Rightarrow> world \<Rightarrow> (error + pyfloat list) \<times> world" where
  "read_batch_readiness_times filepath w =
     (let w' = w\<lparr>opened := opened w @ [filepath]\<rparr>
      in case files w filepath of
           None \<Rightarrow> (Inl (OSError filepath), w')
         | Some content \<Rightarrow> (Inr (parse content), w'))"

section \<open>The statistics\<close>

text \<open>
  The numpy reductions the program calls, on a one-dimensional float64 array. The sum
  starts from zero and adds in index order, which is numpy's order for an array of fewer
  than eight elements; for a longer array numpy groups the additions in blocks, which can
  change how the sum rounds or overflows, and nothing else. The number of elements is
  converted to a float, exactly as long as it is below \<open>2 ^ 53\<close>.
\<close>

definition np_sum :: "pyfloat list \<Rightarrow> pyfloat" where
  "np_sum a = foldl fadd (Fin 0) a"

definition np_mean :: "pyfloat list \<Rightarrow> pyfloat" where
  "np_mean a = fdiv (np_sum a) (Fin (real (length a)))"

text \<open>
  \<^verbatim>\<open>np.std(a, ddof=k)\<close>: the mean, the squared deviations from it, their sum divided by
  \<open>max (n - k) 0\<close>, and the square root of that.
\<close>

definition np_var :: "pyfloat list \<Rightarrow> int \<Rightarrow> pyfloat" where
  "np_var a ddof =
     (let arrmean = fdiv (np_sum a) (Fin (real (length a)));
          x = map (\<lambda>v. fsub v arrmean) a;
          x2 = map (\<lambda>d. fmul d d) x;
          ret = np_sum x2;
          rcount = max (int (length a) - ddof) 0
      in fdiv ret (Fin (real_of_int rcount)))"

definition np_std :: "pyfloat list \<Rightarrow> int \<Rightarrow> pyfloat" where
  "np_std a ddof = fsqrt (np_var a ddof)"

text \<open>
  \<^verbatim>\<open>np.minimum\<close> and \<^verbatim>\<open>np.maximum\<close> keep a NaN; the reductions start from the first
  element and raise ValueError on an empty array.
\<close>

definition np_minimum :: "pyfloat \<Rightarrow> pyfloat \<Rightarrow> pyfloat" where
  "np_minimum a b = (if fle a b \<or> a = NaN then a else b)"

definition np_maximum :: "pyfloat \<Rightarrow> pyfloat \<Rightarrow> pyfloat" where
  "np_maximum a b = (if fle b a \<or> a = NaN then a else b)"

fun np_min :: "pyfloat list \<Rightarrow> error + pyfloat" where
  "np_min [] = Inl ValueError"
| "np_min (v # vs) = Inr (foldl np_minimum v vs)"

fun np_max :: "pyfloat list \<Rightarrow> error + pyfloat" where
  "np_max [] = Inl ValueError"
| "np_max (v # vs) = Inr (foldl np_maximum v vs)"

record stats =
  mean :: pyfloat
  std :: pyfloat
  vmin :: pyfloat
  vmax :: pyfloat

text \<open>
  The four assignments of \<^verbatim>\<open>main\<close> after the check for an empty array: each statistic
  is taken from the whole array, the deviation with \<^verbatim>\<open>ddof=1\<close>.
\<close>

definition summarize :: "pyfloat list \<Rightarrow> error + stats" where
  "summarize values =
     (case np_min values of
        Inl e \<Rightarrow> Inl e
      | Inr lo \<Rightarrow>
          (case np_max values of
             Inl e \<Rightarrow> Inl e
           | Inr hi \<Rightarrow>
               Inr \<lparr>mean = np_mean values, std = np_std values 1, vmin = lo, vmax = hi\<rparr>))"

section \<open>Printing\<close>

fun str_nat :: "nat \<Rightarrow> string" where
  "str_nat n =
     (if n < 10 then [''0123456789'' ! n]
      else str_nat (n div 10) @ [''0123456789'' ! (n mod 10)])"

declare str_nat.simps [simp del]

text \<open>
  The format \<^verbatim>\<open>:.2f\<close>: the value rounded to two decimals, ties to even, on the exact
  binary value; never an exponent.
\<close>

definition fmt2 :: "pyfloat \<Rightarrow> string" where
  "fmt2 v =
     (case v of
        NaN \<Rightarrow> ''nan''
      | PInf \<Rightarrow> ''inf''
      | NInf \<Rightarrow> ''-inf''
      | Fin x \<Rightarrow>
          (let n = nat (round_half_even (\<bar>x\<bar> * 100))
           in (if x < 0 then ''-'' else []) @ str_nat (n div 100) @ ''.'' @
              [''0123456789'' ! (n mod 100 div 10), ''0123456789'' ! (n mod 10)]))"

definition py_print :: "out_line \<Rightarrow> world \<Rightarrow> world" where
  "py_print l w = w\<lparr>stdout := stdout w @ [l]\<rparr>"

definition report :: "pyfloat list \<Rightarrow> stats \<Rightarrow> out_line list" where
  "report values s =
     [Line ''----- Results -----'',
      ValuesLine values,
      Line (''Mean: '' @ fmt2 (mean s) @ '' ms''),
      Line (''Std Dev: '' @ fmt2 (std s) @ '' ms''),
      Line (''Min: '' @ fmt2 (vmin s) @ '' ms''),
      Line (''Max: '' @ fmt2 (vmax s) @ '' ms'')]"

section \<open>The program\<close>

text \<open>
  How a run ends: \<^verbatim>\<open>sys.exit(n)\<close> or the normal end (status 0), or an exception that
  nothing catches, which the interpreter reports on the error stream before it exits with
  status 1.
\<close>

datatype exit = Exit nat | Uncaught error

definition exit_status :: "exit \<Rightarrow> nat" where
  "exit_status x = (case x of Exit n \<Rightarrow> n | Uncaught e \<Rightarrow> 1)"

text \<open>\<open>argv\<close> is \<^verbatim>\<open>sys.argv\<close>: the name of the script, then the arguments.\<close>

definition main :: "string list \<Rightarrow> world \<Rightarrow> exit \<times> world" where
  "main argv w =
     (if length argv \<noteq> 2
      then (Exit 1, py_print (Line ''Usage: python3 compute_std.py <metrics_file.txt>'') w)
      else (let filepath = argv ! 1;
                (r, w1) = read_batch_readiness_times filepath w
            in case r of
                 Inl e \<Rightarrow> (Uncaught e, w1)
               | Inr values \<Rightarrow>
                   if length values = 0
                   then (Exit 1, py_print (Line ''No valid data found in file.'') w1)
                   else (case summarize values of
                           Inl e \<Rightarrow> (Uncaught e, w1)
                         | Inr s \<Rightarrow> (Exit 0, w1\<lparr>stdout := stdout w1 @ report values s\<rparr>))))"

section \<open>What the specification says of a line\<close>

text \<open>
  The specification's words for the lines that are no data: empty once stripped, or
  starting with one of the three marker prefixes.
\<close>

definition skipped :: "string \<Rightarrow> bool" where
  "skipped line =
     (line = [] \<or> py_startswith line ''Iteration'' \<or> py_startswith line ''Average Batch'' \<or>
      py_startswith line ''Final Average'')"

text \<open>
  The specification's words for what one line contributes: the float of field 3 when the
  line is not skipped, has at least four fields and the field parses; nothing otherwise.
\<close>

definition line_sample :: "string \<Rightarrow> pyfloat option" where
  "line_sample raw =
     (let line = py_strip raw; parts = py_split (CHR '','') line
      in if \<not> skipped line \<and> 4 \<le> length parts then py_float (parts ! 3) else None)"


lemmas text_defs = file_lines_def LF_def CR_def py_strip_def py_isspace_def py_startswith_def
lemmas float_defs = py_float_def float_strip_def float_isspace_def is_digit_def decimal_value_def
  split_sign_def parse_exponent_def digits_val_def scale10_def parse_inf_or_nan_def ci_match_def

section \<open>Rounding to binary64\<close>

text \<open>Rounding to the nearest integer stays between floor and ceiling and moves by a half at most.\<close>

lemma rhe_of_int: "round_half_even (of_int k) = k"
  by (simp add: round_half_even_def)





lemma rhe_error: "\<bar>of_int (round_half_even x) - x\<bar> \<le> 1 / 2"
  unfolding round_half_even_def Let_def
  by (auto simp: abs_if) linarith+

text \<open>
  A number that is an integer multiple of its own unit in the last place, and below
  \<open>2 ^ 1024\<close>, is a binary64 value: rounding leaves it as it is. Every integer below
  \<open>2 ^ 53\<close> is one.
\<close>

lemma p2_less_iff: "((2::real) powr of_int a < 2 powr of_int b) = (a < b)"
  by simp


lemma p2_nat: "(2::real) powr of_int (int n) = 2 ^ n"
  by (simp add: powr_realpow)

lemma p2_neg: "e \<le> 0 \<Longrightarrow> (2::real) powr of_int e = 1 / 2 ^ nat (- e)"
proof -
  assume e: "e \<le> 0"
  have "(2::real) powr of_int e = 1 / 2 powr of_int (- e)"
    by (simp add: powr_minus_divide)
  also have "(2::real) powr of_int (- e) = 2 ^ nat (- e)"
    using p2_nat [of "nat (- e)"] e by simp
  finally show ?thesis .
qed


lemma round64_exact:
  assumes "x / 2 powr of_int (ulp_exp x) = of_int k" and "\<bar>x\<bar> < 2 ^ 1024"
  shows "round64 x = Fin x"
proof (cases "x = 0")
  case True
  then show ?thesis by (simp add: round64_def)
next
  case False
  have u: "0 < (2::real) powr of_int (ulp_exp x)" by simp
  from assms(1) have x: "x = of_int k * 2 powr of_int (ulp_exp x)"
    using u by (simp add: field_simps)
  have "of_int (round_half_even (x / 2 powr of_int (ulp_exp x))) * 2 powr of_int (ulp_exp x) = x"
    using assms(1) x by (simp add: rhe_of_int)
  with False assms(2) show ?thesis
    by (simp add: round64_def Let_def)
qed

lemma floor_log2_bounds:
  assumes "x \<noteq> 0"
  shows "2 powr of_int \<lfloor>log 2 \<bar>x\<bar>\<rfloor> \<le> \<bar>x\<bar>" and "\<bar>x\<bar> < 2 powr of_int (\<lfloor>log 2 \<bar>x\<bar>\<rfloor> + 1)"
  using assms floor_log_eq_powr_iff [of "\<bar>x\<bar>" 2 "\<lfloor>log 2 \<bar>x\<bar>\<rfloor>"] by auto

lemma floor_log2_eq:
  assumes "2 powr of_int e \<le> \<bar>x\<bar>" and "\<bar>x\<bar> < 2 powr of_int (e + 1)"
  shows "\<lfloor>log 2 \<bar>x\<bar>\<rfloor> = e"
proof -
  have "0 < \<bar>x\<bar>" using assms(1) powr_gt_zero [of 2 "of_int e"] by linarith
  then show ?thesis using assms floor_log_eq_powr_iff [of "\<bar>x\<bar>" 2 e] by simp
qed

lemma round64_of_int:
  assumes "\<bar>k\<bar> < 2 ^ 53"
  shows "round64 (of_int k) = Fin (of_int k)"
proof (cases "k = 0")
  case True
  then show ?thesis by (simp add: round64_def)
next
  case False
  define x :: real where "x = of_int k"
  have x0: "x \<noteq> 0" using False by (simp add: x_def)
  have "\<bar>x\<bar> < 2 ^ 53"
    using assms unfolding x_def
    by (metis of_int_abs of_int_less_iff of_int_numeral of_int_power)
  then have lt: "\<bar>x\<bar> < 2 powr of_int (int 53)"
    by (simp only: p2_nat)
  have "2 powr of_int \<lfloor>log 2 \<bar>x\<bar>\<rfloor> < (2::real) powr of_int (int 53)"
    using floor_log2_bounds(1) [OF x0] lt by linarith
  then have "\<lfloor>log 2 \<bar>x\<bar>\<rfloor> < int 53"
    by (simp only: p2_less_iff)
  then have e: "ulp_exp x \<le> 0" by (simp add: ulp_exp_def)
  define n where "n = nat (- ulp_exp x)"
  have "(2::real) powr of_int (ulp_exp x) = 1 / 2 ^ n"
    using e unfolding n_def by (rule p2_neg)
  then have "x / 2 powr of_int (ulp_exp x) = of_int (k * 2 ^ n)"
    by (simp add: x_def)
  moreover have "\<bar>x\<bar> < 2 ^ 1024"
    using \<open>\<bar>x\<bar> < 2 ^ 53\<close> by simp
  ultimately show ?thesis unfolding x_def by (rule round64_exact)
qed

lemma round64_numeral [simp]:
  "numeral n < (2::int) ^ 53 \<Longrightarrow> round64 (numeral n) = Fin (numeral n)"
  using round64_of_int [of "numeral n"] by simp

lemma round64_neg_numeral [simp]:
  "numeral n < (2::int) ^ 53 \<Longrightarrow> round64 (- numeral n) = Fin (- numeral n)"
  using round64_of_int [of "- numeral n"] by simp

lemma round64_0 [simp]: "round64 0 = Fin 0"
  by (simp add: round64_def)

lemma round64_1 [simp]: "round64 1 = Fin 1"
  using round64_of_int [of 1] by simp



lemma rhe_near:
  assumes "of_int k - 1 / 2 < x" and "x < of_int k + 1 / 2"
  shows "round_half_even x = k"
proof -
  have "\<lfloor>x\<rfloor> = k \<or> \<lfloor>x\<rfloor> = k - 1" using assms by linarith
  then show ?thesis
    using assms unfolding round_half_even_def Let_def by auto
qed

lemma rhe_numeral [simp]: "round_half_even (numeral n) = numeral n"
  using rhe_of_int [of "numeral n"] by simp


section \<open>The loop, line by line\<close>



lemma loop_body_sample:
  "loop_body raw acc = acc @ (case line_sample raw of Some v \<Rightarrow> [v] | None \<Rightarrow> [])"
  by (simp add: loop_body_def line_sample_def skipped_def Let_def split: option.splits)

lemma lines_loop_map_filter: "lines_loop ls acc = acc @ List.map_filter line_sample ls"
proof (induction ls arbitrary: acc)
  case Nil
  show ?case by (simp add: List.map_filter_simps)
next
  case (Cons l ls)
  show ?case
    by (simp add: Cons.IH loop_body_sample List.map_filter_simps split: option.splits)
qed

lemma parse_map_filter: "parse content = List.map_filter line_sample (file_lines content)"
  by (simp add: parse_def lines_loop_map_filter)



lemma py_split_field:
  "sep \<notin> set f \<Longrightarrow> py_split sep (f @ sep # rest) = f # py_split sep rest"
  by (induction f) auto

lemma py_split_not_Nil: "py_split sep s \<noteq> []"
  by (induction s) (auto split: list.splits)

lemma lines_loop_append:
  "lines_loop (xs @ ys) acc = lines_loop ys (lines_loop xs acc)"
  by (induction xs arbitrary: acc) simp_all

section \<open>One value, and the square root of 200\<close>






lemma round64_sqrt_200:
  "\<exists>r. round64 (sqrt 200) = Fin r \<and> 1414 - 1 / 2 < r * 100 \<and> r * 100 < 1414 + 1 / 2"
proof -
  define x :: real where "x = sqrt 200"
  have lo: "1414 / 100 < x" unfolding x_def by (rule real_less_rsqrt) (simp add: power2_eq_square)
  have hi: "x < 14143 / 1000" unfolding x_def by (rule real_less_lsqrt) (simp_all add: power2_eq_square)
  have "2 powr of_int 3 \<le> \<bar>x\<bar>" and "\<bar>x\<bar> < 2 powr of_int (3 + 1)"
    using lo hi p2_nat [of 3] p2_nat [of 4] by simp_all
  then have "\<lfloor>log 2 \<bar>x\<bar>\<rfloor> = 3" by (rule floor_log2_eq)
  then have e: "ulp_exp x = - 49" by (simp add: ulp_exp_def)
  have u: "(2::real) powr of_int (- 49) = 1 / 2 ^ 49"
    using p2_neg [of "- 49"] by simp
  define r :: real where "r = of_int (round_half_even (x / 2 powr of_int (ulp_exp x))) * 2 powr of_int (ulp_exp x)"
  have err: "\<bar>r - x\<bar> \<le> 1 / 2 ^ 50"
  proof -
    have "\<bar>of_int (round_half_even (x * 2 ^ 49)) - x * 2 ^ 49\<bar> \<le> 1 / 2"
      by (rule rhe_error)
    then show ?thesis unfolding r_def e u by (simp add: field_simps abs_if split: if_splits)
  qed
  have near: "x - 1 / 1000 \<le> r" "r \<le> x + 1 / 1000"
    using err by (simp_all add: abs_if split: if_splits)
  have small: "\<bar>r\<bar> < 2 ^ 1024"
  proof -
    have "\<bar>r\<bar> < 16" using near lo hi by (simp add: abs_if)
    also have "(16::real) < 2 ^ 1024" by simp
    finally show ?thesis .
  qed
  have "x \<noteq> 0" using lo by simp
  then have "round64 x = Fin r"
    using small unfolding round64_def r_def Let_def by simp
  moreover have "1414 - 1 / 2 < r * 100" and "r * 100 < 1414 + 1 / 2"
    using near lo hi by simp_all
  ultimately show ?thesis unfolding x_def by blast
qed

lemma fmt2_sqrt_200: "fmt2 (round64 (sqrt 200)) = ''14.14''"
proof -
  obtain r where r: "round64 (sqrt 200) = Fin r"
    and lo: "1414 - 1 / 2 < r * 100" and hi: "r * 100 < 1414 + 1 / 2"
    using round64_sqrt_200 by blast
  have pos: "0 < r" using lo by simp
  have "round_half_even (r * 100) = 1414"
    using lo hi rhe_near [of 1414 "r * 100"] by simp
  then show ?thesis
    using pos unfolding r by (simp add: fmt2_def str_nat.simps)
qed

section \<open>Minimum and maximum without a NaN\<close>






lemma summarize_nonempty:
  "summarize (v # vs) =
     Inr \<lparr>mean = np_mean (v # vs), std = np_std (v # vs) 1,
          vmin = foldl np_minimum v vs, vmax = foldl np_maximum v vs\<rparr>"
  by (simp add: summarize_def)



section \<open>Overflow of the sum\<close>











section \<open>Runs of the program\<close>

lemma main_readable:
  assumes "files w p = Some content"
  shows "main [prog, p] w =
     (if parse content = []
      then (Exit 1, w\<lparr>opened := opened w @ [p],
                         stdout := stdout w @ [Line ''No valid data found in file.'']\<rparr>)
      else (case summarize (parse content) of
              Inl e \<Rightarrow> (Uncaught e, w\<lparr>opened := opened w @ [p]\<rparr>)
            | Inr s \<Rightarrow> (Exit 0, w\<lparr>opened := opened w @ [p],
                                    stdout := stdout w @ report (parse content) s\<rparr>)))"
  using assms
  by (simp add: main_def read_batch_readiness_times_def py_print_def Let_def split: sum.splits)

lemma main_unreadable:
  assumes "files w p = None"
  shows "main [prog, p] w = (Uncaught (OSError p), w\<lparr>opened := opened w @ [p]\<rparr>)"
  using assms by (simp add: main_def read_batch_readiness_times_def Let_def)

lemma summarize_total: "a \<noteq> [] \<Longrightarrow> \<exists>s. summarize a = Inr s"
  by (cases a) (simp_all add: summarize_nonempty)

lemma parse_example: "parse ''1,100,10,50\<newline>2,200,20,70\<newline>'' = [Fin 50, Fin 70]"
  by (simp add: parse_def loop_body_def text_defs float_defs)

lemma summarize_example:
  "summarize [Fin 50, Fin 70] =
     Inr \<lparr>mean = Fin 60, std = round64 (sqrt 200), vmin = Fin 50, vmax = Fin 70\<rparr>"
  by (simp add: summarize_nonempty np_mean_def np_std_def np_var_def np_sum_def fsub_def fneg_def
      np_minimum_def np_maximum_def)

lemma report_example:
  "report [Fin 50, Fin 70] \<lparr>mean = Fin 60, std = round64 (sqrt 200), vmin = Fin 50, vmax = Fin 70\<rparr> =
     [Line ''----- Results -----'', ValuesLine [Fin 50, Fin 70], Line ''Mean: 60.00 ms'',
      Line ''Std Dev: 14.14 ms'', Line ''Min: 50.00 ms'', Line ''Max: 70.00 ms'']"
  by (simp add: report_def fmt2_sqrt_200) (simp add: fmt2_def str_nat.simps)




text \<open>
  Claim C2. For a file that can be opened, the function returns the float of the fourth
  field of every line that is not skipped, has at least four fields and whose fourth
  field \<^verbatim>\<open>float\<close> accepts: one value for each such line, in the order of the file, and
  nothing for any other line. Nothing is printed, and a line that gives no value does not
  end the reading: the lines after it are treated in the same way.
\<close>
theorem read_returns_fourth_fields:
  assumes "files w filepath = Some content"
  shows "read_batch_readiness_times filepath w =
     (Inr (List.map_filter line_sample (file_lines content)), w\<lparr>opened := opened w @ [filepath]\<rparr>)"
  using assms by (simp add: read_batch_readiness_times_def parse_map_filter)

theorem read_returns_fourth_fields_witness:
  "files \<lparr>files = [''m.txt'' \<mapsto> ''Iteration 1\<newline>1,100,10,50\<newline>2,200\<newline>3,300,30,abc\<newline>\<newline>4,400,40,70\<newline>Final Average: 60\<newline>''],
          opened = [], stdout = []\<rparr> ''m.txt''
     = Some ''Iteration 1\<newline>1,100,10,50\<newline>2,200\<newline>3,300,30,abc\<newline>\<newline>4,400,40,70\<newline>Final Average: 60\<newline>'' \<and>
   read_batch_readiness_times ''m.txt''
     \<lparr>files = [''m.txt'' \<mapsto> ''Iteration 1\<newline>1,100,10,50\<newline>2,200\<newline>3,300,30,abc\<newline>\<newline>4,400,40,70\<newline>Final Average: 60\<newline>''],
      opened = [], stdout = []\<rparr> =
     (Inr [Fin 50, Fin 70],
      \<lparr>files = [''m.txt'' \<mapsto> ''Iteration 1\<newline>1,100,10,50\<newline>2,200\<newline>3,300,30,abc\<newline>\<newline>4,400,40,70\<newline>Final Average: 60\<newline>''],
       opened = [''m.txt''], stdout = []\<rparr>)"
proof -
  have h: "files \<lparr>files = [''m.txt'' \<mapsto> ''Iteration 1\<newline>1,100,10,50\<newline>2,200\<newline>3,300,30,abc\<newline>\<newline>4,400,40,70\<newline>Final Average: 60\<newline>''],
          opened = [], stdout = []\<rparr> ''m.txt''
     = Some ''Iteration 1\<newline>1,100,10,50\<newline>2,200\<newline>3,300,30,abc\<newline>\<newline>4,400,40,70\<newline>Final Average: 60\<newline>''"
    by simp
  have e: "List.map_filter line_sample (file_lines ''Iteration 1\<newline>1,100,10,50\<newline>2,200\<newline>3,300,30,abc\<newline>\<newline>4,400,40,70\<newline>Final Average: 60\<newline>'')
     = [Fin 50, Fin 70]"
    by (simp add: List.map_filter_simps line_sample_def skipped_def text_defs float_defs)
  from read_returns_fourth_fields [OF h] h e show ?thesis by simp
qed

text \<open>
  Claim C3. A line that is empty once stripped, or that then starts with
  \<^verbatim>\<open>Iteration\<close>, \<^verbatim>\<open>Average Batch\<close> or \<^verbatim>\<open>Final Average\<close>, leaves the list of values as
  it was, whatever follows the prefix: the loop gives the same list with the line as
  without it.
\<close>
theorem marker_lines_contribute_nothing:
  assumes "py_strip raw = [] \<or> py_startswith (py_strip raw) ''Iteration'' \<or>
           py_startswith (py_strip raw) ''Average Batch'' \<or>
           py_startswith (py_strip raw) ''Final Average''"
  shows "loop_body raw acc = acc \<and>
         lines_loop (before @ raw # after) acc = lines_loop (before @ after) acc"
proof -
  have "loop_body raw vs = vs" for vs
    using assms by (auto simp: loop_body_def Let_def)
  then show ?thesis by (simp add: lines_loop_append)
qed

theorem marker_lines_contribute_nothing_witness:
  "py_startswith (py_strip ''  Average Batch,1,2,99\<newline>'') ''Average Batch'' \<and>
   loop_body ''  Average Batch,1,2,99\<newline>'' [Fin 1] = [Fin 1] \<and>
   lines_loop ([''1,2,3,4\<newline>''] @ ''  Average Batch,1,2,99\<newline>'' # [''5,6,7,8\<newline>'']) [Fin 1] =
   lines_loop ([''1,2,3,4\<newline>''] @ [''5,6,7,8\<newline>'']) [Fin 1] \<and>
   line_sample ''Batch,1,2,99\<newline>'' = Some (Fin 99)"
proof -
  have h: "py_startswith (py_strip ''  Average Batch,1,2,99\<newline>'') ''Average Batch''"
    by (simp add: text_defs)
  then have h': "py_strip ''  Average Batch,1,2,99\<newline>'' = [] \<or>
      py_startswith (py_strip ''  Average Batch,1,2,99\<newline>'') ''Iteration'' \<or>
      py_startswith (py_strip ''  Average Batch,1,2,99\<newline>'') ''Average Batch'' \<or>
      py_startswith (py_strip ''  Average Batch,1,2,99\<newline>'') ''Final Average''"
    by blast
  have e: "line_sample ''Batch,1,2,99\<newline>'' = Some (Fin 99)"
    by (simp add: line_sample_def skipped_def text_defs float_defs)
  from marker_lines_contribute_nothing [OF h', of "[Fin 1]" "[''1,2,3,4\<newline>'']" "[''5,6,7,8\<newline>'']"] h e
  show ?thesis by blast
qed

text \<open>
  Claim C4. With one argument that names a file that can be opened, the status is 0
  exactly when at least one value was read, and then the report of the statistics is
  printed; when no value was read the run prints \<^verbatim>\<open>No valid data found in file.\<close> and
  ends by \<^verbatim>\<open>sys.exit(1)\<close>. A file that cannot be opened ends the run otherwise: by an
  exception that nothing catches, with nothing printed.
\<close>
theorem exit_status_of_readable_file:
  assumes "files w p = Some content"
  shows "((exit_status (fst (main [prog, p] w)) = 0) = (parse content \<noteq> [])) \<and>
     (parse content = [] \<longrightarrow>
        main [prog, p] w =
          (Exit 1, w\<lparr>opened := opened w @ [p],
                       stdout := stdout w @ [Line ''No valid data found in file.'']\<rparr>)) \<and>
     (parse content \<noteq> [] \<longrightarrow>
        (\<exists>s. summarize (parse content) = Inr s \<and>
             main [prog, p] w =
               (Exit 0, w\<lparr>opened := opened w @ [p],
                            stdout := stdout w @ report (parse content) s\<rparr>))) \<and>
     (files w' p = None \<longrightarrow>
        main [prog, p] w' = (Uncaught (OSError p), w'\<lparr>opened := opened w' @ [p]\<rparr>))"
proof (cases "parse content = []")
  case True
  then show ?thesis
    using main_readable [OF assms, of prog] main_unreadable [of w' p prog]
    by (simp add: exit_status_def)
next
  case False
  then obtain s where s: "summarize (parse content) = Inr s"
    using summarize_total by blast
  with False show ?thesis
    using main_readable [OF assms, of prog] main_unreadable [of w' p prog]
    by (simp add: exit_status_def)
qed

theorem exit_status_of_readable_file_witness:
  "files \<lparr>files = [''m.txt'' \<mapsto> ''Iteration 1\<newline>Average Batch Time: 50\<newline>''], opened = [], stdout = []\<rparr> ''m.txt''
     = Some ''Iteration 1\<newline>Average Batch Time: 50\<newline>'' \<and>
   parse ''Iteration 1\<newline>Average Batch Time: 50\<newline>'' = [] \<and>
   main [''compute_std.py'', ''m.txt'']
     \<lparr>files = [''m.txt'' \<mapsto> ''Iteration 1\<newline>Average Batch Time: 50\<newline>''], opened = [], stdout = []\<rparr> =
     (Exit 1, \<lparr>files = [''m.txt'' \<mapsto> ''Iteration 1\<newline>Average Batch Time: 50\<newline>''],
               opened = [''m.txt''], stdout = [Line ''No valid data found in file.'']\<rparr>) \<and>
   main [''compute_std.py'', ''m.txt''] \<lparr>files = Map.empty, opened = [], stdout = []\<rparr> =
     (Uncaught (OSError ''m.txt''), \<lparr>files = Map.empty, opened = [''m.txt''], stdout = []\<rparr>)"
proof -
  have h: "files \<lparr>files = [''m.txt'' \<mapsto> ''Iteration 1\<newline>Average Batch Time: 50\<newline>''], opened = [], stdout = []\<rparr> ''m.txt''
     = Some ''Iteration 1\<newline>Average Batch Time: 50\<newline>''"
    by simp
  have e: "parse ''Iteration 1\<newline>Average Batch Time: 50\<newline>'' = []"
    by (simp add: parse_def loop_body_def text_defs)
  from exit_status_of_readable_file [OF h, of "''compute_std.py''"
      "\<lparr>files = Map.empty, opened = [], stdout = []\<rparr>"] h e
  show ?thesis by simp
qed

text \<open>
  Claim C5. When \<^verbatim>\<open>sys.argv\<close> does not have exactly two entries (the script and one
  path), the run prints the usage line and ends with status 1, and no file has been
  opened.
\<close>
theorem wrong_arity_prints_usage:
  assumes "length argv \<noteq> 2"
  shows "main argv w =
           (Exit 1, w\<lparr>stdout := stdout w @ [Line ''Usage: python3 compute_std.py <metrics_file.txt>'']\<rparr>) \<and>
         exit_status (fst (main argv w)) = 1 \<and>
         opened (snd (main argv w)) = opened w"
  using assms by (simp add: main_def py_print_def exit_status_def)

theorem wrong_arity_prints_usage_witness:
  "length [''compute_std.py''] \<noteq> 2 \<and>
   main [''compute_std.py''] \<lparr>files = [''m.txt'' \<mapsto> ''1,2,3,4''], opened = [], stdout = []\<rparr> =
     (Exit 1, \<lparr>files = [''m.txt'' \<mapsto> ''1,2,3,4''], opened = [],
               stdout = [Line ''Usage: python3 compute_std.py <metrics_file.txt>'']\<rparr>) \<and>
   length [''compute_std.py'', ''m.txt'', ''n.txt''] \<noteq> 2 \<and>
   main [''compute_std.py'', ''m.txt'', ''n.txt''] \<lparr>files = [''m.txt'' \<mapsto> ''1,2,3,4''], opened = [], stdout = []\<rparr> =
     (Exit 1, \<lparr>files = [''m.txt'' \<mapsto> ''1,2,3,4''], opened = [],
               stdout = [Line ''Usage: python3 compute_std.py <metrics_file.txt>'']\<rparr>)"
proof -
  have h1: "length [''compute_std.py''] \<noteq> 2" by simp
  have h2: "length [''compute_std.py'', ''m.txt'', ''n.txt''] \<noteq> 2" by simp
  from wrong_arity_prints_usage [OF h1, of "\<lparr>files = [''m.txt'' \<mapsto> ''1,2,3,4''], opened = [], stdout = []\<rparr>"]
    wrong_arity_prints_usage [OF h2, of "\<lparr>files = [''m.txt'' \<mapsto> ''1,2,3,4''], opened = [], stdout = []\<rparr>"]
  show ?thesis by simp
qed

text \<open>
  Claim C6. On the file \<^verbatim>\<open>1,100,10,50\n2,200,20,70\n\<close> the values read are 50.0 and 70.0,
  and the run prints the mean 60.00, the deviation 14.14, the minimum 50.00 and the
  maximum 70.00 and ends with status 0. The deviation is the binary64 square root of 200,
  which lies within \<open>2 powr (-50)\<close> of 14.1421...
\<close>
theorem scenario_two_rows:
  assumes "files w p = Some ''1,100,10,50\<newline>2,200,20,70\<newline>''"
  shows "parse ''1,100,10,50\<newline>2,200,20,70\<newline>'' = [Fin 50, Fin 70] \<and>
     main [prog, p] w =
       (Exit 0, w\<lparr>opened := opened w @ [p],
                    stdout := stdout w @
                      [Line ''----- Results -----'', ValuesLine [Fin 50, Fin 70],
                       Line ''Mean: 60.00 ms'', Line ''Std Dev: 14.14 ms'',
                       Line ''Min: 50.00 ms'', Line ''Max: 70.00 ms'']\<rparr>)"
  unfolding main_readable [OF assms] parse_example summarize_example
  by (simp add: report_example)

theorem scenario_two_rows_witness:
  "files \<lparr>files = [''m.txt'' \<mapsto> ''1,100,10,50\<newline>2,200,20,70\<newline>''], opened = [], stdout = []\<rparr> ''m.txt''
     = Some ''1,100,10,50\<newline>2,200,20,70\<newline>'' \<and>
   main [''compute_std.py'', ''m.txt'']
     \<lparr>files = [''m.txt'' \<mapsto> ''1,100,10,50\<newline>2,200,20,70\<newline>''], opened = [], stdout = []\<rparr> =
     (Exit 0, \<lparr>files = [''m.txt'' \<mapsto> ''1,100,10,50\<newline>2,200,20,70\<newline>''],
               opened = [''m.txt''],
               stdout = [Line ''----- Results -----'', ValuesLine [Fin 50, Fin 70],
                         Line ''Mean: 60.00 ms'', Line ''Std Dev: 14.14 ms'',
                         Line ''Min: 50.00 ms'', Line ''Max: 70.00 ms'']\<rparr>)"
proof -
  have h: "files \<lparr>files = [''m.txt'' \<mapsto> ''1,100,10,50\<newline>2,200,20,70\<newline>''], opened = [], stdout = []\<rparr> ''m.txt''
     = Some ''1,100,10,50\<newline>2,200,20,70\<newline>''"
    by simp
  from scenario_two_rows [OF h, of "''compute_std.py''"] h show ?thesis by simp
qed





text \<open>
  Claim C9. A line that is not skipped and has more than four fields contributes the
  float of its fourth field (nothing when \<^verbatim>\<open>float\<close> refuses it), whatever stands after
  the fourth comma.
\<close>
theorem extra_fields_are_ignored:
  assumes "CHR '','' \<notin> set f0" and "CHR '','' \<notin> set f1"
    and "CHR '','' \<notin> set f2" and "CHR '','' \<notin> set f3"
    and "py_strip raw = f0 @ '','' @ f1 @ '','' @ f2 @ '','' @ f3 @ '','' @ rest"
    and "\<not> skipped (py_strip raw)"
  shows "4 < length (py_split (CHR '','') (py_strip raw)) \<and>
         loop_body raw acc = acc @ (case py_float f3 of Some v \<Rightarrow> [v] | None \<Rightarrow> [])"
proof -
  have parts: "py_split (CHR '','') (py_strip raw) = f0 # f1 # f2 # f3 # py_split (CHR '','') rest"
    unfolding assms(5) using assms(1-4) by (simp add: py_split_field)
  obtain r rs where "py_split (CHR '','') rest = r # rs"
    using py_split_not_Nil [of "CHR '',''" rest] by (cases "py_split (CHR '','') rest") auto
  with parts have len: "4 < length (py_split (CHR '','') (py_strip raw))" by simp
  have "loop_body raw acc = acc @ (case py_float f3 of Some v \<Rightarrow> [v] | None \<Rightarrow> [])"
    using assms(6) len parts
    by (simp add: loop_body_def skipped_def Let_def split: option.splits)
  with len show ?thesis by simp
qed

theorem extra_fields_are_ignored_witness:
  "CHR '','' \<notin> set ''1'' \<and> CHR '','' \<notin> set ''100'' \<and> CHR '','' \<notin> set ''10'' \<and> CHR '','' \<notin> set ''50'' \<and>
   py_strip ''1,100,10,50,extra,9\<newline>'' = ''1'' @ '','' @ ''100'' @ '','' @ ''10'' @ '','' @ ''50'' @ '','' @ ''extra,9'' \<and>
   \<not> skipped (py_strip ''1,100,10,50,extra,9\<newline>'') \<and>
   loop_body ''1,100,10,50,extra,9\<newline>'' [Fin 1] = [Fin 1, Fin 50]"
proof -
  have h: "CHR '','' \<notin> set ''1''" "CHR '','' \<notin> set ''100''" "CHR '','' \<notin> set ''10''"
    "CHR '','' \<notin> set ''50''"
    by simp_all
  have s: "py_strip ''1,100,10,50,extra,9\<newline>'' = ''1'' @ '','' @ ''100'' @ '','' @ ''10'' @ '','' @ ''50'' @ '','' @ ''extra,9''"
    by (simp add: text_defs)
  have k: "\<not> skipped (py_strip ''1,100,10,50,extra,9\<newline>'')"
    by (simp add: skipped_def text_defs)
  have f: "py_float ''50'' = Some (Fin 50)"
    by (simp add: float_defs)
  from extra_fields_are_ignored [OF h s k, of "[Fin 1]"] h s k f show ?thesis by simp
qed

text \<open>
  Claim C10. \<^verbatim>\<open>float\<close> accepts more than plain decimals as a fourth field:
  \<^verbatim>\<open>inf\<close>, \<^verbatim>\<open>nan\<close>, \<^verbatim>\<open>1e3\<close> and a number between spaces each give a value, so an
  infinity or a NaN can be among the values read, and it reaches the statistics: a NaN
  makes all four of them NaN, an infinity makes the mean and the maximum infinite and the
  deviation a NaN.
\<close>
theorem float_accepts_more_than_decimals:
  "py_float ''inf'' = Some PInf \<and> py_float ''-Infinity'' = Some NInf \<and>
   py_float ''nan'' = Some NaN \<and> py_float ''1e3'' = Some (Fin 1000) \<and>
   py_float '' 5 '' = Some (Fin 5) \<and>
   parse ''1,2,3,inf\<newline>1,2,3,nan\<newline>1,2,3,1e3\<newline>1,2,3, 5 ,6\<newline>'' = [PInf, NaN, Fin 1000, Fin 5] \<and>
   summarize (parse ''1,2,3,4\<newline>1,2,3,nan\<newline>1,2,3,6\<newline>'') =
     Inr \<lparr>mean = NaN, std = NaN, vmin = NaN, vmax = NaN\<rparr> \<and>
   summarize (parse ''1,2,3,inf\<newline>1,2,3,5\<newline>'') =
     Inr \<lparr>mean = PInf, std = NaN, vmin = Fin 5, vmax = PInf\<rparr> \<and>
   main [''compute_std.py'', ''m.txt'']
     \<lparr>files = [''m.txt'' \<mapsto> ''1,2,3,inf\<newline>1,2,3,5\<newline>''], opened = [], stdout = []\<rparr> =
     (Exit 0, \<lparr>files = [''m.txt'' \<mapsto> ''1,2,3,inf\<newline>1,2,3,5\<newline>''], opened = [''m.txt''],
               stdout = [Line ''----- Results -----'', ValuesLine [PInf, Fin 5],
                         Line ''Mean: inf ms'', Line ''Std Dev: nan ms'',
                         Line ''Min: 5.00 ms'', Line ''Max: inf ms'']\<rparr>)"
proof -
  have p1: "parse ''1,2,3,4\<newline>1,2,3,nan\<newline>1,2,3,6\<newline>'' = [Fin 4, NaN, Fin 6]"
    by (simp add: parse_def loop_body_def text_defs float_defs)
  have p2: "parse ''1,2,3,inf\<newline>1,2,3,5\<newline>'' = [PInf, Fin 5]"
    by (simp add: parse_def loop_body_def text_defs float_defs)
  have s1: "summarize [Fin 4, NaN, Fin 6] = Inr \<lparr>mean = NaN, std = NaN, vmin = NaN, vmax = NaN\<rparr>"
    by (simp add: summarize_nonempty np_mean_def np_std_def np_var_def np_sum_def fsub_def
        fneg_def np_minimum_def np_maximum_def)
  have s2: "summarize [PInf, Fin 5] = Inr \<lparr>mean = PInf, std = NaN, vmin = Fin 5, vmax = PInf\<rparr>"
    by (simp add: summarize_nonempty np_mean_def np_std_def np_var_def np_sum_def fsub_def
        fneg_def np_minimum_def np_maximum_def)
  have f: "py_float ''inf'' = Some PInf" "py_float ''-Infinity'' = Some NInf"
    "py_float ''nan'' = Some NaN" "py_float ''1e3'' = Some (Fin 1000)"
    "py_float '' 5 '' = Some (Fin 5)"
    by (simp_all add: float_defs)
  have p3: "parse ''1,2,3,inf\<newline>1,2,3,nan\<newline>1,2,3,1e3\<newline>1,2,3, 5 ,6\<newline>'' = [PInf, NaN, Fin 1000, Fin 5]"
    by (simp add: parse_def loop_body_def text_defs float_defs)
  have m: "main [''compute_std.py'', ''m.txt'']
     \<lparr>files = [''m.txt'' \<mapsto> ''1,2,3,inf\<newline>1,2,3,5\<newline>''], opened = [], stdout = []\<rparr> =
     (Exit 0, \<lparr>files = [''m.txt'' \<mapsto> ''1,2,3,inf\<newline>1,2,3,5\<newline>''], opened = [''m.txt''],
               stdout = [Line ''----- Results -----'', ValuesLine [PInf, Fin 5],
                         Line ''Mean: inf ms'', Line ''Std Dev: nan ms'',
                         Line ''Min: 5.00 ms'', Line ''Max: inf ms'']\<rparr>)"
    by (subst main_readable [where content = "''1,2,3,inf\<newline>1,2,3,5\<newline>''"])
      (simp_all add: p2 s2 report_def fmt2_def str_nat.simps)
  show ?thesis
    unfolding p1 p2 s1 s2 using f p3 m by simp
qed

end
